theory Spec2Isabelle
  imports Complex_Main "HOL-Library.Log_Nat"
begin

section \<open>Values and outcomes\<close>

text \<open>
  The notebooks compute with Python and NumPy floating-point numbers. Each update is
  embedded twice: over exact rationals, for the statements of exact arithmetic, and
  over 64-bit floating-point numbers (the definitions named \<open>_float\<close>), where every
  operation rounds its result. Two behaviours of the source at a zero divisor are
  kept apart:
  \<^item> a division of NumPy scalars or arrays (\<open>np.float64\<close>) by zero raises nothing: it
    yields \<open>nan\<close> or \<open>inf\<close> (with a warning) and the computation goes on with
    non-finite numbers; the model returns \<open>NonFinite\<close> there;
  \<^item> a division of plain Python numbers by zero raises \<open>ZeroDivisionError\<close>; the model
    returns \<open>Raise ZeroDivisionError\<close>.
\<close>

datatype exn = ZeroDivisionError | ValueError

datatype 'a outcome = Return 'a | NonFinite | Raise exn

section \<open>64-bit floating-point arithmetic\<close>

text \<open>
  A finite floating-point number is the rational it stands for. \<open>fl\<close> rounds a
  rational to the nearest number with 53 significant binary digits, a tie going to the
  even significand; every floating-point operation is the exact operation followed by
  \<open>fl\<close>. Overflow, subnormal numbers and the sign of zero are outside this model.
\<close>

definition half_even :: "rat \<Rightarrow> int" where
  "half_even m =
     (let f = \<lfloor>m\<rfloor>; d = m - of_int f in
      if d < 1 / 2 then f else if 1 / 2 < d then f + 1 else if even f then f else f + 1)"

text \<open>The exponent \<open>e\<close> of a positive rational: \<open>2 ^ e \<le> x < 2 ^ (e + 1)\<close>.\<close>

definition expo :: "rat \<Rightarrow> int" where
  "expo x =
     (let (p, q) = quotient_of x; e0 = bitlen p - bitlen q in
      if 2 powi e0 \<le> x then e0 else e0 - 1)"

definition fl :: "rat \<Rightarrow> rat" where
  "fl x =
     (if x = 0 then 0
      else let u = 2 powi (expo \<bar>x\<bar> - 52) in of_int (half_even (x / u)) * u)"

definition fadd :: "rat \<Rightarrow> rat \<Rightarrow> rat" where
  "fadd x y = fl (x + y)"

definition fsub :: "rat \<Rightarrow> rat \<Rightarrow> rat" where
  "fsub x y = fl (x - y)"

definition fmul :: "rat \<Rightarrow> rat \<Rightarrow> rat" where
  "fmul x y = fl (x * y)"

text \<open>The division, for a divisor that is not zero.\<close>

definition fdiv :: "rat \<Rightarrow> rat \<Rightarrow> rat" where
  "fdiv x y = fl (x / y)"

section \<open>Lecture 05: selection and recombination at two loci\<close>

text \<open>
  The sweep cell keeps, for every recombination value \<open>r[i]\<close>, the four genotype
  frequencies \<open>p_AA[i]\<close>, \<open>p_AB[i]\<close>, \<open>p_BA[i]\<close>, \<open>p_BB[i]\<close> and the four stored
  allele frequencies \<open>p_1A[i]\<close>, \<open>p_1B[i]\<close>, \<open>p_2A[i]\<close>, \<open>p_2B[i]\<close>. The entries
  of different indices never meet, so one record holds the state of one index.
\<close>

record freqs =
  p_AA :: rat
  p_AB :: rat
  p_BA :: rat
  p_BB :: rat
  p_1A :: rat
  p_1B :: rat
  p_2A :: rat
  p_2B :: rat

record fitness =
  w_AA :: rat
  w_AB :: rat
  w_BA :: rat
  w_BB :: rat

text \<open>\<open>w_BA = w_BB = 1 + s\<close> and \<open>w_AA = w_AB = 1\<close>.\<close>

definition sweep_fitness :: "rat \<Rightarrow> fitness" where
  "sweep_fitness s = \<lparr>w_AA = 1, w_AB = 1, w_BA = 1 + s, w_BB = 1 + s\<rparr>"

text \<open>
  The state before the loop: the four genotype frequencies, and the allele
  frequencies computed from them (\<open>p_1A = p_AA + p_AB\<close> and the three lines after it).
\<close>

definition mk_freqs :: "rat \<Rightarrow> rat \<Rightarrow> rat \<Rightarrow> rat \<Rightarrow> freqs" where
  "mk_freqs aa ab ba bb =
     \<lparr>p_AA = aa, p_AB = ab, p_BA = ba, p_BB = bb,
      p_1A = aa + ab, p_1B = ba + bb, p_2A = aa + ba, p_2B = ab + bb\<rparr>"


definition w_bar :: "fitness \<Rightarrow> freqs \<Rightarrow> rat" where
  "w_bar w st =
     (w_AA w * p_AA st) + (w_AB w * p_AB st) + (w_BA w * p_BA st) + (w_BB w * p_BB st)"

text \<open>
  One pass through the body of the \<open>while\<close> loop: the new genotype frequencies, then
  the overwriting of the genotype and of the allele frequencies. All eight numbers
  are NumPy scalars, so with \<open>w_bar = 0\<close> every new frequency is \<open>nan\<close> or \<open>inf\<close>.
\<close>

definition tick :: "fitness \<Rightarrow> rat \<Rightarrow> freqs \<Rightarrow> freqs outcome" where
  "tick w r st =
     (let wb = w_bar w st in
      if wb = 0 then NonFinite
      else
        let new_p_AA = (1 - r) * w_AA w * p_AA st / wb + r * p_1A st * p_2A st;
            new_p_AB = (1 - r) * w_AB w * p_AB st / wb + r * p_1A st * p_2B st;
            new_p_BA = (1 - r) * w_BA w * p_BA st / wb + r * p_1B st * p_2A st;
            new_p_BB = (1 - r) * w_BB w * p_BB st / wb + r * p_1B st * p_2B st
        in Return
             \<lparr>p_AA = new_p_AA, p_AB = new_p_AB, p_BA = new_p_BA, p_BB = new_p_BB,
              p_1A = new_p_AA + new_p_AB, p_1B = new_p_BA + new_p_BB,
              p_2A = new_p_AA + new_p_BA, p_2B = new_p_AB + new_p_BB\<rparr>)"


text \<open>The state after \<open>n\<close> passes through the loop body.\<close>

fun ticks :: "fitness \<Rightarrow> rat \<Rightarrow> nat \<Rightarrow> freqs \<Rightarrow> freqs outcome" where
  "ticks w r 0 st = Return st"
| "ticks w r (Suc n) st =
     (case tick w r st of
        Return st' \<Rightarrow> ticks w r n st'
      | NonFinite \<Rightarrow> NonFinite
      | Raise e \<Rightarrow> Raise e)"

text \<open>
  The same pass in floating-point arithmetic, every operation of the source in its
  order: \<open>(1 - r[i])*w_AA*p_AA[i]/w_bar\<close> multiplies twice, then divides. The fitness
  \<open>1 + s\<close> is a rounded sum as well.
\<close>

definition sweep_fitness_float :: "rat \<Rightarrow> fitness" where
  "sweep_fitness_float s = \<lparr>w_AA = 1, w_AB = 1, w_BA = fadd 1 s, w_BB = fadd 1 s\<rparr>"

definition w_bar_float :: "fitness \<Rightarrow> freqs \<Rightarrow> rat" where
  "w_bar_float w st =
     fadd (fadd (fadd (fmul (w_AA w) (p_AA st)) (fmul (w_AB w) (p_AB st)))
                (fmul (w_BA w) (p_BA st)))
          (fmul (w_BB w) (p_BB st))"

definition tick_float :: "fitness \<Rightarrow> rat \<Rightarrow> freqs \<Rightarrow> freqs outcome" where
  "tick_float w r st =
     (let wb = w_bar_float w st in
      if wb = 0 then NonFinite
      else
        let new_p_AA = fadd (fdiv (fmul (fmul (fsub 1 r) (w_AA w)) (p_AA st)) wb)
                            (fmul (fmul r (p_1A st)) (p_2A st));
            new_p_AB = fadd (fdiv (fmul (fmul (fsub 1 r) (w_AB w)) (p_AB st)) wb)
                            (fmul (fmul r (p_1A st)) (p_2B st));
            new_p_BA = fadd (fdiv (fmul (fmul (fsub 1 r) (w_BA w)) (p_BA st)) wb)
                            (fmul (fmul r (p_1B st)) (p_2A st));
            new_p_BB = fadd (fdiv (fmul (fmul (fsub 1 r) (w_BB w)) (p_BB st)) wb)
                            (fmul (fmul r (p_1B st)) (p_2B st))
        in Return
             \<lparr>p_AA = new_p_AA, p_AB = new_p_AB, p_BA = new_p_BA, p_BB = new_p_BB,
              p_1A = fadd new_p_AA new_p_AB, p_1B = fadd new_p_BA new_p_BB,
              p_2A = fadd new_p_AA new_p_BA, p_2B = fadd new_p_AB new_p_BB\<rparr>)"

text \<open>The stored allele frequencies are the sums of the genotype frequencies.\<close>

definition consistent :: "freqs \<Rightarrow> bool" where
  "consistent st \<longleftrightarrow>
     p_1A st = p_AA st + p_AB st \<and> p_1B st = p_BA st + p_BB st \<and>
     p_2A st = p_AA st + p_BA st \<and> p_2B st = p_AB st + p_BB st"

definition nonneg :: "freqs \<Rightarrow> bool" where
  "nonneg st \<longleftrightarrow> 0 \<le> p_AA st \<and> 0 \<le> p_AB st \<and> 0 \<le> p_BA st \<and> 0 \<le> p_BB st"

definition total_freq :: "freqs \<Rightarrow> rat" where
  "total_freq st = p_AA st + p_AB st + p_BA st + p_BB st"

subsection \<open>The update in the words of its formula\<close>

text \<open>
  The lecture writes the update for a genotype \<open>G = {g1, g2}\<close>, an allele at the first
  and one at the second locus. These definitions read the state and the fitness values
  by genotype, and give the sums of the formula their names.
\<close>

datatype allele = A | B

type_synonym genotype = "allele \<times> allele"

fun freq :: "freqs \<Rightarrow> genotype \<Rightarrow> rat" where
  "freq st (A, A) = p_AA st"
| "freq st (A, B) = p_AB st"
| "freq st (B, A) = p_BA st"
| "freq st (B, B) = p_BB st"

fun fit :: "fitness \<Rightarrow> genotype \<Rightarrow> rat" where
  "fit w (A, A) = w_AA w"
| "fit w (A, B) = w_AB w"
| "fit w (B, A) = w_BA w"
| "fit w (B, B) = w_BB w"

definition genotypes :: "genotype list" where
  "genotypes = [(A, A), (A, B), (B, A), (B, B)]"

text \<open>Mean fitness: the sum over the genotypes of fitness times frequency.\<close>

definition mean_fitness :: "fitness \<Rightarrow> freqs \<Rightarrow> rat" where
  "mean_fitness w st = (\<Sum>G\<leftarrow>genotypes. fit w G * freq st G)"

text \<open>The frequency of a genotype after selection alone.\<close>

definition selection_output :: "fitness \<Rightarrow> freqs \<Rightarrow> genotype \<Rightarrow> rat" where
  "selection_output w st G = fit w G * freq st G / mean_fitness w st"

text \<open>The allele frequencies of a state: the sums of its genotype frequencies.\<close>

definition marginal_freq_locus1 :: "freqs \<Rightarrow> allele \<Rightarrow> rat" where
  "marginal_freq_locus1 st g1 = (\<Sum>g2\<leftarrow>[A, B]. freq st (g1, g2))"

definition marginal_freq_locus2 :: "freqs \<Rightarrow> allele \<Rightarrow> rat" where
  "marginal_freq_locus2 st g2 = (\<Sum>g1\<leftarrow>[A, B]. freq st (g1, g2))"

text \<open>The allele frequencies after selection and before recombination.\<close>

definition post_selection_locus1 :: "fitness \<Rightarrow> freqs \<Rightarrow> allele \<Rightarrow> rat" where
  "post_selection_locus1 w st g1 = (\<Sum>g2\<leftarrow>[A, B]. selection_output w st (g1, g2))"

definition post_selection_locus2 :: "fitness \<Rightarrow> freqs \<Rightarrow> allele \<Rightarrow> rat" where
  "post_selection_locus2 w st g2 = (\<Sum>g1\<leftarrow>[A, B]. selection_output w st (g1, g2))"

section \<open>Lecture 04: drift and selection at one locus\<close>

text \<open>
  The random draws come from NumPy's generator, which is no part of the notebooks.
  The model takes each sampler as a parameter: a function of the generator's state
  and the arguments of the call that returns the draw and the generator's next state.
\<close>

type_synonym 'g binomial = "'g \<Rightarrow> int \<Rightarrow> rat \<Rightarrow> int \<times> 'g"

type_synonym 'g multinomial = "'g \<Rightarrow> int \<Rightarrow> rat list \<Rightarrow> int list \<times> 'g"

text \<open>
  The probability to select an A allele, from the current count \<open>n_t[i][j]\<close> (an
  entry of a NumPy array): \<open>n * (1 + s) / (n * (1 + s) + N - n)\<close>, here in exact
  arithmetic.
\<close>

definition p_A :: "int \<Rightarrow> rat \<Rightarrow> int \<Rightarrow> rat outcome" where
  "p_A N s n =
     (let d = of_int n * (1 + s) + of_int N - of_int n in
      if d = 0 then NonFinite else Return (of_int n * (1 + s) / d))"

text \<open>
  The mean fitness of the lecture's formula \<open>p_A = p (1 + s) / (p (1 + s) + (1 - p))\<close>:
  allele A has fitness \<open>1 + s\<close> and frequency \<open>p\<close>, allele B has fitness 1 and
  frequency \<open>1 - p\<close>.
\<close>

definition allele_mean_fitness :: "rat \<Rightarrow> rat \<Rightarrow> rat" where
  "allele_mean_fitness s p = (1 + s) * p + 1 * (1 - p)"

text \<open>
  The same probability in floating-point arithmetic: the product \<open>n * (1 + s)\<close>, the
  sum with \<open>N\<close>, the difference with \<open>n\<close>, the quotient.
\<close>

definition p_A_float :: "int \<Rightarrow> rat \<Rightarrow> int \<Rightarrow> rat outcome" where
  "p_A_float N s n =
     (let a = fmul (of_int n) (fadd 1 s);
          d = fsub (fadd a (of_int N)) (of_int n)
      in if d = 0 then NonFinite else Return (fdiv a d))"

text \<open>
  One generation: \<open>p_A\<close> is computed and handed to \<open>rng.binomial(N, p_A)\<close> as it is.
  NumPy's sampler checks its argument: it raises \<open>ValueError\<close> when \<open>p\<close> is below 0,
  above 1 or not a number, and draws otherwise.
\<close>

definition drift_step :: "'g binomial \<Rightarrow> int \<Rightarrow> rat \<Rightarrow> int \<Rightarrow> 'g \<Rightarrow> (int \<times> 'g) outcome" where
  "drift_step rng_binomial N s n g =
     (case p_A_float N s n of
        Return p \<Rightarrow> if 0 \<le> p \<and> p \<le> 1 then Return (rng_binomial g N p) else Raise ValueError
      | NonFinite \<Rightarrow> Raise ValueError
      | Raise e \<Rightarrow> Raise e)"

section \<open>Lecture 03: selection on one genotype\<close>

text \<open>
  Modelled from the spec: the notebook leaves the mean fitness of \<open>evolve\<close> to the
  reader (\<open>w_bar = FILL IN\<close>). The spec gives it as the sum over the genotypes of
  fitness times current frequency; here the genotypes are the heterozygote, of
  frequency \<open>p\<close> and fitness \<open>w\<close>, and the wild type, of frequency \<open>1 - p\<close> and
  fitness 1.
\<close>

definition evolve_w_bar :: "rat \<Rightarrow> rat \<Rightarrow> rat" where
  "evolve_w_bar p w = w * p + 1 * (1 - p)"

text \<open>\<open>evolve(p, w)\<close> divides Python numbers, so a zero mean fitness raises.\<close>

definition evolve :: "rat \<Rightarrow> rat \<Rightarrow> rat outcome" where
  "evolve p w =
     (let w_bar = evolve_w_bar p w in
      if w_bar = 0 then Raise ZeroDivisionError else Return (w * p / w_bar))"

section \<open>Lecture 02: mutation in the infinite-alleles model\<close>

text \<open>
  \<open>np.array(allele_n)/np.sum(allele_n)\<close>: the weights of the multinomial draw. The
  division is NumPy's; an empty list gives an empty array.
\<close>

definition pvals :: "int list \<Rightarrow> rat list outcome" where
  "pvals allele_n =
     (if allele_n \<noteq> [] \<and> sum_list allele_n = 0 then NonFinite
      else Return (map (\<lambda>c. of_int c / of_int (sum_list allele_n)) allele_n))"

text \<open>\<open>for j in range(new_alleles): new_allele_n.append(1)\<close>\<close>

fun append_ones :: "nat \<Rightarrow> int list \<Rightarrow> int list" where
  "append_ones 0 new_allele_n = new_allele_n"
| "append_ones (Suc j) new_allele_n = append_ones j (new_allele_n @ [1])"

text \<open>
  One generation of the loop, from the binomial draw to the new \<open>allele_n\<close>. The
  statistics stored at the top of the loop body do not change the state.
\<close>

definition mutation_tick ::
  "'g binomial \<Rightarrow> 'g multinomial \<Rightarrow> int \<Rightarrow> rat \<Rightarrow> int list \<Rightarrow> 'g \<Rightarrow> (int list \<times> 'g) outcome" where
  "mutation_tick rng_binomial rng_multinomial N u allele_n g =
     (let (new_alleles, g1) = rng_binomial g (2 * N) u in
      case pvals allele_n of
        Return ps \<Rightarrow>
          (let (drawn, g2) = rng_multinomial g1 (2 * N - new_alleles) ps;
               new_allele_n = append_ones (nat new_alleles) drawn
           in Return (filter (\<lambda>c. 0 < c) new_allele_n, g2))
      | NonFinite \<Rightarrow> NonFinite
      | Raise e \<Rightarrow> Raise e)"

text \<open>
  The mutation step in the words of the spec: the number \<open>k\<close> of mutations, the
  redistribution of the other \<open>2N - k\<close> individuals over the existing alleles with
  their current frequencies as weights, \<open>k\<close> new entries of count 1 at the end, and
  the entries of count 0 removed.
\<close>

definition mutation_step_spec ::
  "'g binomial \<Rightarrow> 'g multinomial \<Rightarrow> int \<Rightarrow> rat \<Rightarrow> int list \<Rightarrow> 'g \<Rightarrow> int list \<times> 'g" where
  "mutation_step_spec rng_binomial rng_multinomial N u counts g =
     (let (k, g1) = rng_binomial g (2 * N) u;
          weights = map (\<lambda>c. of_int c / of_int (sum_list counts)) counts;
          (redistributed, g2) = rng_multinomial g1 (2 * N - k) weights;
          appended = redistributed @ replicate (nat k) 1
      in (filter (\<lambda>c. c \<noteq> 0) appended, g2))"

text \<open>
  Samplers to run the definitions on: a binomial sampler that returns a fixed number,
  and a multinomial sampler that puts every individual on the first allele.
\<close>

definition const_binomial :: "int \<Rightarrow> unit binomial" where
  "const_binomial k g n p = (k, g)"

definition first_multinomial :: "'g multinomial" where
  "first_multinomial g n ps = (n # replicate (length ps - 1) 0, g)"

section \<open>Lemmas on the two-locus update\<close>

lemma consistent_mk_freqs: "consistent (mk_freqs aa ab ba bb)"
  by (simp add: consistent_def mk_freqs_def)

lemma tick_Return:
  "w_bar w st \<noteq> 0 \<Longrightarrow>
   tick w r st = Return
     \<lparr>p_AA = (1 - r) * w_AA w * p_AA st / w_bar w st + r * p_1A st * p_2A st,
      p_AB = (1 - r) * w_AB w * p_AB st / w_bar w st + r * p_1A st * p_2B st,
      p_BA = (1 - r) * w_BA w * p_BA st / w_bar w st + r * p_1B st * p_2A st,
      p_BB = (1 - r) * w_BB w * p_BB st / w_bar w st + r * p_1B st * p_2B st,
      p_1A = ((1 - r) * w_AA w * p_AA st / w_bar w st + r * p_1A st * p_2A st)
           + ((1 - r) * w_AB w * p_AB st / w_bar w st + r * p_1A st * p_2B st),
      p_1B = ((1 - r) * w_BA w * p_BA st / w_bar w st + r * p_1B st * p_2A st)
           + ((1 - r) * w_BB w * p_BB st / w_bar w st + r * p_1B st * p_2B st),
      p_2A = ((1 - r) * w_AA w * p_AA st / w_bar w st + r * p_1A st * p_2A st)
           + ((1 - r) * w_BA w * p_BA st / w_bar w st + r * p_1B st * p_2A st),
      p_2B = ((1 - r) * w_AB w * p_AB st / w_bar w st + r * p_1A st * p_2B st)
           + ((1 - r) * w_BB w * p_BB st / w_bar w st + r * p_1B st * p_2B st)\<rparr>"
  by (simp add: tick_def Let_def)

lemma tick_NonFinite: "tick w r st = NonFinite \<longleftrightarrow> w_bar w st = 0"
  by (simp add: tick_def Let_def)

lemma tick_consistent: "tick w r st = Return st' \<Longrightarrow> consistent st'"
  by (auto simp add: tick_def Let_def consistent_def split: if_splits)

lemma selection_sum:
  fixes wb :: rat
  assumes "wb \<noteq> 0" and "wb = x1 + x2 + x3 + x4"
  shows "(1 - r) * x1 / wb + (1 - r) * x2 / wb + (1 - r) * x3 / wb + (1 - r) * x4 / wb = 1 - r"
proof -
  have "(1 - r) * x1 / wb + (1 - r) * x2 / wb + (1 - r) * x3 / wb + (1 - r) * x4 / wb
        = (1 - r) * (x1 + x2 + x3 + x4) / wb"
    by (simp add: add_divide_distrib distrib_left)
  also have "\<dots> = (1 - r) * wb / wb" using assms(2) by simp
  also have "\<dots> = 1 - r" using assms(1) by simp
  finally show ?thesis .
qed

lemma blend_sum:
  fixes r :: rat
  assumes "a + b = 1" and "c + d = 1"
  shows "r * a * c + r * a * d + r * b * c + r * b * d = r"
proof -
  have "r * a * c + r * a * d + r * b * c + r * b * d = r * ((a + b) * (c + d))"
    by (simp add: algebra_simps)
  then show ?thesis using assms by simp
qed

lemma tick_total:
  assumes c: "consistent st" and t: "total_freq st = 1" and wb: "w_bar w st \<noteq> 0"
    and st': "tick w r st = Return st'"
  shows "total_freq st' = 1"
proof -
  define s1 where "s1 = (1 - r) * (w_AA w * p_AA st) / w_bar w st"
  define s2 where "s2 = (1 - r) * (w_AB w * p_AB st) / w_bar w st"
  define s3 where "s3 = (1 - r) * (w_BA w * p_BA st) / w_bar w st"
  define s4 where "s4 = (1 - r) * (w_BB w * p_BB st) / w_bar w st"
  define b1 where "b1 = r * p_1A st * p_2A st"
  define b2 where "b2 = r * p_1A st * p_2B st"
  define b3 where "b3 = r * p_1B st * p_2A st"
  define b4 where "b4 = r * p_1B st * p_2B st"
  have sel: "s1 + s2 + s3 + s4 = 1 - r"
    unfolding s1_def s2_def s3_def s4_def
    by (rule selection_sum [OF wb]) (simp add: w_bar_def)
  have m1: "p_1A st + p_1B st = 1" and m2: "p_2A st + p_2B st = 1"
    using c t by (simp_all add: consistent_def total_freq_def)
  have bl: "b1 + b2 + b3 + b4 = r"
    unfolding b1_def b2_def b3_def b4_def by (rule blend_sum [OF m1 m2])
  have "total_freq st' = (s1 + b1) + (s2 + b2) + (s3 + b3) + (s4 + b4)"
    using st' unfolding tick_Return [OF wb] total_freq_def
    by (auto simp add: s1_def s2_def s3_def s4_def b1_def b2_def b3_def b4_def mult.assoc)
  also have "\<dots> = (s1 + s2 + s3 + s4) + (b1 + b2 + b3 + b4)" by simp
  also have "\<dots> = 1" by (simp only: sel bl diff_add_cancel)
  finally show ?thesis .
qed

lemma w_bar_sweep:
  assumes "consistent st" "total_freq st = 1"
  shows "w_bar (sweep_fitness s) st = 1 + s * p_1B st"
  using assms by (simp add: w_bar_def sweep_fitness_def consistent_def total_freq_def algebra_simps)

lemma p_1B_sweep:
  assumes c: "consistent st" and t: "total_freq st = 1" and wb: "1 + s * p_1B st \<noteq> 0"
    and st': "tick (sweep_fitness s) r st = Return st'"
  shows "p_1B st' = (1 - r) * ((1 + s) * p_1B st / (1 + s * p_1B st)) + r * p_1B st"
proof -
  have wb': "w_bar (sweep_fitness s) st \<noteq> 0" using wb w_bar_sweep [OF c t] by simp
  have m2: "p_2A st + p_2B st = 1"
    using c t by (simp add: consistent_def total_freq_def)
  have p: "p_1B st = p_BA st + p_BB st" using c by (simp add: consistent_def)
  have "p_1B st' = (1 - r) * (1 + s) * p_BA st / (1 + s * p_1B st) + r * p_1B st * p_2A st
                 + ((1 - r) * (1 + s) * p_BB st / (1 + s * p_1B st) + r * p_1B st * p_2B st)"
    using st' unfolding tick_Return [OF wb'] w_bar_sweep [OF c t]
    by (auto simp add: sweep_fitness_def)
  also have "\<dots> = (1 - r) * (1 + s) * (p_BA st + p_BB st) / (1 + s * p_1B st)
                   + r * p_1B st * (p_2A st + p_2B st)"
    by (simp add: add_divide_distrib distrib_left)
  also have "\<dots> = (1 - r) * ((1 + s) * p_1B st / (1 + s * p_1B st)) + r * p_1B st"
    by (simp add: m2 p mult.assoc)
  finally show ?thesis .
qed

lemma selection_gain:
  fixes p s :: rat
  assumes "0 < s" "0 < p" "p < 1"
  shows "p < (1 + s) * p / (1 + s * p)" and "(1 + s) * p / (1 + s * p) < 1"
proof -
  have pos: "0 < 1 + s * p" using assms by (simp add: add_pos_pos)
  have "s * p * p < s * p * 1" using assms by (intro mult_strict_left_mono) simp_all
  then have "p * (1 + s * p) < (1 + s) * p" by (simp add: algebra_simps)
  then show "p < (1 + s) * p / (1 + s * p)" using pos by (simp add: pos_less_divide_eq)
  have "(1 + s) * p < 1 + s * p" using assms by (simp add: algebra_simps)
  then show "(1 + s) * p / (1 + s * p) < 1" using pos by (simp add: pos_divide_less_eq)
qed

lemma blend_gain:
  fixes p x r :: rat
  assumes "0 \<le> r" "r < 1" "p < x" "x < 1"
  shows "p < (1 - r) * x + r * p" and "(1 - r) * x + r * p < 1"
proof -
  have r1: "0 < 1 - r" using assms by simp
  have "(1 - r) * p < (1 - r) * x" using r1 assms(3) by (rule mult_strict_left_mono [rotated])
  then show "p < (1 - r) * x + r * p" by (simp add: algebra_simps)
  have a: "(1 - r) * x < (1 - r) * 1" using r1 assms(4) by (rule mult_strict_left_mono [rotated])
  have "p < 1" using assms by simp
  then have "r * p \<le> r * 1" using assms(1) by (intro mult_left_mono) simp_all
  with a show "(1 - r) * x + r * p < 1" by simp
qed

lemma tick_nonneg:
  assumes c: "consistent st" and n: "nonneg st" and wb: "0 < w_bar w st"
    and r: "0 \<le> r" "r \<le> 1"
    and w: "0 \<le> w_AA w" "0 \<le> w_AB w" "0 \<le> w_BA w" "0 \<le> w_BB w"
    and st': "tick w r st = Return st'"
  shows "nonneg st'"
proof -
  have wb': "w_bar w st \<noteq> 0" using wb by simp
  have r1: "0 \<le> 1 - r" using r by simp
  have m: "0 \<le> p_1A st" "0 \<le> p_1B st" "0 \<le> p_2A st" "0 \<le> p_2B st"
    using c n by (simp_all add: consistent_def nonneg_def)
  have g: "0 \<le> p_AA st" "0 \<le> p_AB st" "0 \<le> p_BA st" "0 \<le> p_BB st"
    using n by (simp_all add: nonneg_def)
  have tm: "\<And>wg pg m1 m2. 0 \<le> wg \<Longrightarrow> 0 \<le> pg \<Longrightarrow> 0 \<le> m1 \<Longrightarrow> 0 \<le> m2 \<Longrightarrow>
      0 \<le> (1 - r) * wg * pg / w_bar w st + r * m1 * m2"
    using r1 r(1) wb by (intro add_nonneg_nonneg divide_nonneg_pos mult_nonneg_nonneg)
  show ?thesis
    using st' unfolding tick_Return [OF wb'] nonneg_def
    by (auto intro!: tm w g m)
qed

lemma mean_fitness_w_bar: "mean_fitness w st = w_bar w st"
  by (simp add: mean_fitness_def genotypes_def w_bar_def)

lemma all_genotypes:
  "(\<forall>G. P G) \<longleftrightarrow> P (A, A) \<and> P (A, B) \<and> P (B, A) \<and> P (B, B)"
proof
  assume r: "P (A, A) \<and> P (A, B) \<and> P (B, A) \<and> P (B, B)"
  show "\<forall>G. P G"
  proof
    fix G :: genotype
    obtain g1 g2 where G: "G = (g1, g2)" by (cases G)
    show "P G" using r unfolding G by (cases g1; cases g2) simp_all
  qed
qed simp

lemma ex_genotypes:
  "(\<exists>G. P G) \<longleftrightarrow> P (A, A) \<or> P (A, B) \<or> P (B, A) \<or> P (B, B)"
  using all_genotypes [of "\<lambda>G. \<not> P G"] by blast

lemma all_allele: "(\<forall>g. P g) \<longleftrightarrow> P A \<and> P B"
proof
  assume r: "P A \<and> P B"
  show "\<forall>g. P g"
  proof
    fix g show "P g" using r by (cases g) simp_all
  qed
qed simp

lemma tick_no_recombination:
  assumes "w_bar w st \<noteq> 0"
  shows "\<exists>st'. tick w 0 st = Return st' \<and>
           (\<forall>G. freq st' G = fit w G * freq st G / mean_fitness w st)"
  unfolding tick_Return [OF assms] mean_fitness_w_bar
  by (simp add: all_allele)

lemma p_A_as_selection:
  assumes N: "0 < N"
    and wb: "(1 + s) * (of_int n / of_int N) + 1 * (1 - of_int n / of_int N) \<noteq> 0"
  shows "p_A N s n = Return ((1 + s) * (of_int n / of_int N)
            / ((1 + s) * (of_int n / of_int N) + 1 * (1 - of_int n / of_int N)))"
proof -
  define x :: rat where "x = of_int n"
  define y :: rat where "y = of_int N"
  have y: "y \<noteq> 0" using N by (simp add: y_def)
  have d: "(1 + s) * (x / y) + 1 * (1 - x / y) = (x * (1 + s) + y - x) / y"
    using y by (simp add: field_simps)
  have d0: "x * (1 + s) + y - x \<noteq> 0"
    using wb y unfolding x_def [symmetric] y_def [symmetric] d by simp
  have "(1 + s) * (x / y) = x * (1 + s) / y" by simp
  then have "(1 + s) * (x / y) / ((x * (1 + s) + y - x) / y) = x * (1 + s) / (x * (1 + s) + y - x)"
    using y by simp
  then show ?thesis
    using d0 unfolding p_A_def Let_def x_def [symmetric] y_def [symmetric] d by simp
qed

lemma evolve_Return: "evolve_w_bar p w \<noteq> 0 \<Longrightarrow> evolve p w = Return (w * p / evolve_w_bar p w)"
  by (simp add: evolve_def Let_def)

lemma tick_blend:
  assumes c: "consistent st" and wb: "w_bar w st \<noteq> 0"
  shows "\<exists>st'. tick w r st = Return st' \<and>
           (\<forall>g1 g2. freq st' (g1, g2) =
               (1 - r) * selection_output w st (g1, g2)
               + r * marginal_freq_locus1 st g1 * marginal_freq_locus2 st g2) \<and>
           consistent st'"
proof -
  have m: "marginal_freq_locus1 st A = p_1A st" "marginal_freq_locus1 st B = p_1B st"
    "marginal_freq_locus2 st A = p_2A st" "marginal_freq_locus2 st B = p_2B st"
    using c by (simp_all add: marginal_freq_locus1_def marginal_freq_locus2_def consistent_def)
  have split: "\<And>P. (\<forall>g1 g2. P g1 g2) \<longleftrightarrow> P A A \<and> P A B \<and> P B A \<and> P B B"
    using all_genotypes [of "\<lambda>G. _ (fst G) (snd G)"] by simp
  obtain st' where st': "tick w r st = Return st'" using tick_Return [OF wb] by blast
  have "consistent st'" by (rule tick_consistent [OF st'])
  moreover have "\<forall>g1 g2. freq st' (g1, g2) =
               (1 - r) * selection_output w st (g1, g2)
               + r * marginal_freq_locus1 st g1 * marginal_freq_locus2 st g2"
    using st' unfolding tick_Return [OF wb] split
    by (auto simp add: selection_output_def mean_fitness_w_bar m mult.assoc)
  ultimately show ?thesis using st' by blast
qed

lemma w_bar_pos:
  assumes n: "nonneg st" and w: "\<forall>G. 0 \<le> fit w G"
    and ex: "\<exists>G. 0 < freq st G \<and> 0 < fit w G"
  shows "0 < w_bar w st"
proof -
  have g: "0 \<le> p_AA st" "0 \<le> p_AB st" "0 \<le> p_BA st" "0 \<le> p_BB st"
    using n by (simp_all add: nonneg_def)
  have f: "0 \<le> w_AA w" "0 \<le> w_AB w" "0 \<le> w_BA w" "0 \<le> w_BB w"
    using w by (simp_all add: all_allele)
  have t: "0 \<le> w_AA w * p_AA st" "0 \<le> w_AB w * p_AB st"
    "0 \<le> w_BA w * p_BA st" "0 \<le> w_BB w * p_BB st"
    using g f by simp_all
  from ex consider "0 < p_AA st \<and> 0 < w_AA w" | "0 < p_AB st \<and> 0 < w_AB w"
    | "0 < p_BA st \<and> 0 < w_BA w" | "0 < p_BB st \<and> 0 < w_BB w"
    unfolding ex_genotypes by auto
  then show ?thesis
  proof cases
    case 1 then have "0 < w_AA w * p_AA st" by simp
    with t show ?thesis unfolding w_bar_def by linarith
  next
    case 2 then have "0 < w_AB w * p_AB st" by simp
    with t show ?thesis unfolding w_bar_def by linarith
  next
    case 3 then have "0 < w_BA w * p_BA st" by simp
    with t show ?thesis unfolding w_bar_def by linarith
  next
    case 4 then have "0 < w_BB w * p_BB st" by simp
    with t show ?thesis unfolding w_bar_def by linarith
  qed
qed

lemma tick_not_Raise: "tick w r st \<noteq> Raise e"
  by (simp add: tick_def Let_def)

lemma evolve_Raise: "evolve p w = Raise ZeroDivisionError \<longleftrightarrow> evolve_w_bar p w = 0"
  by (simp add: evolve_def Let_def)

section \<open>Lemmas on the mutation step\<close>

lemma append_ones_replicate: "append_ones j xs = xs @ replicate j 1"
  by (induction j arbitrary: xs) (simp_all add: replicate_append_same)

lemma sum_list_replicate_ones: "sum_list (replicate j (1::int)) = int j"
  by (induction j) simp_all

lemma sum_list_filter_pos:
  "\<forall>c\<in>set xs. (0::int) \<le> c \<Longrightarrow> sum_list (filter (\<lambda>c. 0 < c) xs) = sum_list xs"
  by (induction xs) auto

lemma filter_pos_nonzero:
  "\<forall>c\<in>set xs. (0::int) \<le> c \<Longrightarrow> filter (\<lambda>c. 0 < c) xs = filter (\<lambda>c. c \<noteq> 0) xs"
  by (induction xs) auto

lemma pvals_Return:
  "allele_n = [] \<or> sum_list allele_n \<noteq> 0 \<Longrightarrow>
   pvals allele_n = Return (map (\<lambda>c. of_int c / of_int (sum_list allele_n)) allele_n)"
  by (auto simp add: pvals_def)

lemma mutation_tick_Return:
  assumes "allele_n = [] \<or> sum_list allele_n \<noteq> 0"
    and "rng_binomial g (2 * N) u = (k, g1)"
    and "rng_multinomial g1 (2 * N - k)
           (map (\<lambda>c. of_int c / of_int (sum_list allele_n)) allele_n) = (m, g2)"
  shows "mutation_tick rng_binomial rng_multinomial N u allele_n g =
           Return (filter (\<lambda>c. 0 < c) (m @ replicate (nat k) 1), g2)"
  using assms(2,3)
  by (simp add: mutation_tick_def pvals_Return [OF assms(1)] append_ones_replicate)

lemma mutation_step_spec_eq:
  assumes "rng_binomial g (2 * N) u = (k, g1)"
    and "rng_multinomial g1 (2 * N - k)
           (map (\<lambda>c. of_int c / of_int (sum_list counts)) counts) = (m, g2)"
  shows "mutation_step_spec rng_binomial rng_multinomial N u counts g =
           (filter (\<lambda>c. c \<noteq> 0) (m @ replicate (nat k) 1), g2)"
  using assms by (simp add: mutation_step_spec_def)

lemma sum_after_mutation:
  assumes "0 \<le> k" "sum_list m = 2 * N - k" "\<forall>c\<in>set m. (0::int) \<le> c"
  shows "sum_list (filter (\<lambda>c. 0 < c) (m @ replicate (nat k) 1)) = 2 * N"
proof -
  have "\<forall>c\<in>set (m @ replicate (nat k) 1). (0::int) \<le> c" using assms(3) by auto
  then have "sum_list (filter (\<lambda>c. 0 < c) (m @ replicate (nat k) 1))
             = sum_list (m @ replicate (nat k) 1)" by (rule sum_list_filter_pos)
  also have "\<dots> = sum_list m + int (nat k)" by (simp add: sum_list_replicate_ones)
  also have "\<dots> = 2 * N" using assms(1,2) by simp
  finally show ?thesis .
qed

section \<open>Lemmas on the sweep loop\<close>

lemma tick_sweep_progress:
  assumes c: "consistent st" and n: "nonneg st" and t: "total_freq st = 1"
    and s: "0 < s" and r: "0 \<le> r" "r < 1" and p: "0 < p_1B st" "p_1B st < 1"
  shows "\<exists>st'. tick (sweep_fitness s) r st = Return st' \<and>
         consistent st' \<and> nonneg st' \<and> total_freq st' = 1 \<and>
         p_1B st < p_1B st' \<and> p_1B st' < 1"
proof -
  have pos: "0 < 1 + s * p_1B st" using s p by (simp add: add_pos_pos)
  then have wb: "0 < w_bar (sweep_fitness s) st" by (simp add: w_bar_sweep [OF c t])
  then have wb': "w_bar (sweep_fitness s) st \<noteq> 0" by simp
  obtain st' where st': "tick (sweep_fitness s) r st = Return st'"
    using tick_Return [OF wb'] by blast
  have c': "consistent st'" by (rule tick_consistent [OF st'])
  have t': "total_freq st' = 1" by (rule tick_total [OF c t wb' st'])
  have n': "nonneg st'"
    using s by (intro tick_nonneg [OF c n wb r(1) _ _ _ _ _ st'])
      (use r in \<open>simp_all add: sweep_fitness_def\<close>)
  have eq: "p_1B st' = (1 - r) * ((1 + s) * p_1B st / (1 + s * p_1B st)) + r * p_1B st"
    using pos by (intro p_1B_sweep [OF c t _ st']) simp
  note g = selection_gain [OF s p]
  have "p_1B st < p_1B st'" and "p_1B st' < 1"
    unfolding eq using blend_gain [OF r g] by simp_all
  then show ?thesis using st' c' t' n' by blast
qed

lemma ticks_sweep_progress:
  assumes s: "0 < s" and r: "0 \<le> r" "r < 1"
  shows "consistent st \<Longrightarrow> nonneg st \<Longrightarrow> total_freq st = 1 \<Longrightarrow> 0 < p_1B st \<Longrightarrow> p_1B st < 1 \<Longrightarrow>
    \<exists>sn sn'. ticks (sweep_fitness s) r n st = Return sn \<and>
             tick (sweep_fitness s) r sn = Return sn' \<and> p_1B sn < p_1B sn'"
proof (induction n arbitrary: st)
  case 0
  from tick_sweep_progress [OF "0.prems"(1,2,3) s r "0.prems"(4,5)]
  show ?case by auto
next
  case (Suc n)
  from tick_sweep_progress [OF Suc.prems(1,2,3) s r Suc.prems(4,5)]
  obtain st1 where st1: "tick (sweep_fitness s) r st = Return st1"
    and inv: "consistent st1" "nonneg st1" "total_freq st1 = 1"
    and p: "p_1B st < p_1B st1" "p_1B st1 < 1" by blast
  have "0 < p_1B st1" using Suc.prems(4) p(1) by simp
  from Suc.IH [OF inv this p(2)] show ?case using st1 by simp
qed









section \<open>Conservation of the total frequency\<close>



section \<open>Progress of the sweep\<close>

text \<open>
  Claim C10, in exact arithmetic. With the sweep's fitness values (\<open>1 + s\<close> for BA
  and BB, 1 for AA and AB, \<open>s > 0\<close>), \<open>r\<close> in \<open>[0,1)\<close> and non-negative genotype
  frequencies that sum to 1, a state with \<open>0 < p_1B < 1\<close>, where
  \<open>p_1B = p_BA + p_BB\<close>, is taken by one pass of the loop body to a state whose
  \<open>p_1B\<close> is strictly larger. The new state satisfies the same conditions again, and
  so every pass of the run, the one after \<open>n\<close> passes for each \<open>n\<close>, strictly
  increases \<open>p_1B\<close>. This is a statement about the rational update \<open>tick\<close>; the
  floating-point update can lose the increase to rounding.
\<close>

theorem tick_p_1B_increases:
  "consistent st \<Longrightarrow> nonneg st \<Longrightarrow> total_freq st = 1 \<Longrightarrow> 0 < s \<Longrightarrow> 0 \<le> r \<Longrightarrow> r < 1 \<Longrightarrow>
   0 < p_1B st \<Longrightarrow> p_1B st < 1 \<Longrightarrow>
   p_1B st = p_BA st + p_BB st \<and>
   (\<exists>st'. tick (sweep_fitness s) r st = Return st' \<and>
         p_1B st' = p_BA st' + p_BB st' \<and> p_1B st < p_1B st' \<and>
         consistent st' \<and> nonneg st' \<and> total_freq st' = 1 \<and> p_1B st' < 1) \<and>
   (\<forall>n. \<exists>sn sn'. ticks (sweep_fitness s) r n st = Return sn \<and>
         tick (sweep_fitness s) r sn = Return sn' \<and> p_1B sn < p_1B sn')"
proof -
  assume a: "consistent st" "nonneg st" "total_freq st = 1" and s: "0 < s"
    and r: "0 \<le> r" "r < 1" and p: "0 < p_1B st" "p_1B st < 1"
  from tick_sweep_progress [OF a s r p]
  obtain st' where st': "tick (sweep_fitness s) r st = Return st'"
    "consistent st'" "nonneg st'" "total_freq st' = 1" "p_1B st < p_1B st'" "p_1B st' < 1"
    by blast
  from st'(2) have "p_1B st' = p_BA st' + p_BB st'" by (simp add: consistent_def)
  with st' have one: "\<exists>st'. tick (sweep_fitness s) r st = Return st' \<and>
         p_1B st' = p_BA st' + p_BB st' \<and> p_1B st < p_1B st' \<and>
         consistent st' \<and> nonneg st' \<and> total_freq st' = 1 \<and> p_1B st' < 1" by blast
  have every: "\<forall>n. \<exists>sn sn'. ticks (sweep_fitness s) r n st = Return sn \<and>
         tick (sweep_fitness s) r sn = Return sn' \<and> p_1B sn < p_1B sn'"
    using ticks_sweep_progress [OF s r a p] by blast
  have "p_1B st = p_BA st + p_BB st" using a(1) by (simp add: consistent_def)
  with one every show ?thesis by blast
qed

theorem tick_p_1B_increases_witness:
  "consistent (mk_freqs (999 / 2000) (1 / 2) (1 / 2000) 0) \<and>
   nonneg (mk_freqs (999 / 2000) (1 / 2) (1 / 2000) 0) \<and>
   total_freq (mk_freqs (999 / 2000) (1 / 2) (1 / 2000) 0) = 1 \<and>
   (0::rat) < 1 / 100 \<and> (0::rat) \<le> 1 / 200 \<and> (1::rat) / 200 < 1 \<and>
   0 < p_1B (mk_freqs (999 / 2000) (1 / 2) (1 / 2000) 0) \<and>
   p_1B (mk_freqs (999 / 2000) (1 / 2) (1 / 2000) 0) < 1 \<and>
   (\<exists>st'. tick (sweep_fitness (1 / 100)) (1 / 200)
           (mk_freqs (999 / 2000) (1 / 2) (1 / 2000) 0) = Return st' \<and>
         p_1B st' = p_BA st' + p_BB st' \<and>
         p_1B (mk_freqs (999 / 2000) (1 / 2) (1 / 2000) 0) < p_1B st' \<and>
         consistent st' \<and> nonneg st' \<and> total_freq st' = 1 \<and> p_1B st' < 1) \<and>
   (\<forall>n. \<exists>sn sn'. ticks (sweep_fitness (1 / 100)) (1 / 200) n
                    (mk_freqs (999 / 2000) (1 / 2) (1 / 2000) 0) = Return sn \<and>
         tick (sweep_fitness (1 / 100)) (1 / 200) sn = Return sn' \<and> p_1B sn < p_1B sn')"
proof -
  have 1: "consistent (mk_freqs (999 / 2000) (1 / 2) (1 / 2000) 0)"
    and 2: "nonneg (mk_freqs (999 / 2000) (1 / 2) (1 / 2000) 0)"
    and 3: "total_freq (mk_freqs (999 / 2000) (1 / 2) (1 / 2000) 0) = 1"
    and 4: "0 < p_1B (mk_freqs (999 / 2000) (1 / 2) (1 / 2000) 0)"
    and 5: "p_1B (mk_freqs (999 / 2000) (1 / 2) (1 / 2000) 0) < 1"
    by (simp_all add: consistent_def nonneg_def total_freq_def mk_freqs_def)
  have 6: "(0::rat) < 1 / 100" and 7: "(0::rat) \<le> 1 / 200" and 8: "(1::rat) / 200 < 1"
    by simp_all
  show ?thesis
    using 1 2 3 4 5 6 7 8 tick_p_1B_increases [OF 1 2 3 6 7 8 4 5] by blast
qed

text \<open>
  In floating-point arithmetic the increase can be lost. With \<open>s = 1\<close>, \<open>r = 0\<close>,
  \<open>p_AA = 2^-53\<close> and \<open>p_BA = 1 - 2^-53\<close> (both floating-point numbers, of sum 1) the
  mean fitness \<open>2 - 2^-53\<close> rounds to 2, and the pass returns \<open>p_1B = 1 - 2^-53\<close>, the
  value it started from.
\<close>

theorem tick_float_stalls_counterexample:
  "fl (1 / 2 ^ 53) = 1 / 2 ^ 53 \<and> fl (1 - 1 / 2 ^ 53) = 1 - 1 / 2 ^ 53 \<and>
   consistent (mk_freqs (1 / 2 ^ 53) 0 (1 - 1 / 2 ^ 53) 0) \<and>
   nonneg (mk_freqs (1 / 2 ^ 53) 0 (1 - 1 / 2 ^ 53) 0) \<and>
   total_freq (mk_freqs (1 / 2 ^ 53) 0 (1 - 1 / 2 ^ 53) 0) = 1 \<and>
   p_1B (mk_freqs (1 / 2 ^ 53) 0 (1 - 1 / 2 ^ 53) 0) = 1 - 1 / 2 ^ 53 \<and>
   w_bar_float (sweep_fitness_float 1) (mk_freqs (1 / 2 ^ 53) 0 (1 - 1 / 2 ^ 53) 0) = 2 \<and>
   tick_float (sweep_fitness_float 1) 0 (mk_freqs (1 / 2 ^ 53) 0 (1 - 1 / 2 ^ 53) 0) =
     Return \<lparr>p_AA = 1 / 2 ^ 54, p_AB = 0, p_BA = 1 - 1 / 2 ^ 53, p_BB = 0,
             p_1A = 1 / 2 ^ 54, p_1B = 1 - 1 / 2 ^ 53, p_2A = 1, p_2B = 0\<rparr>"
  by code_simp

section \<open>The selection step\<close>

text \<open>
  Claim C1. Whenever the mean fitness, the sum over the genotypes (or alleles) of
  fitness times frequency, is positive, the selection step returns for each genotype
  its fitness times its frequency divided by the mean fitness, and it is a function
  of the state and the fitness values alone. For the two-locus frequencies this is
  the loop body of lecture 05 without recombination (\<open>r = 0\<close>); for the count of
  lecture 04 it is \<open>p_A\<close>, with frequency \<open>n / N\<close>; for lecture 03 it is \<open>evolve\<close>.
\<close>

theorem selection_step_formula:
  "(0 < mean_fitness w st \<longrightarrow>
      (\<exists>st'. tick w 0 st = Return st' \<and>
         (\<forall>G. freq st' G = fit w G * freq st G / mean_fitness w st))) \<and>
   (0 < N \<and> 0 < allele_mean_fitness s (of_int n / of_int N) \<longrightarrow>
      p_A N s n = Return ((1 + s) * (of_int n / of_int N)
                    / allele_mean_fitness s (of_int n / of_int N))) \<and>
   (0 < evolve_w_bar p v \<longrightarrow> evolve p v = Return (v * p / evolve_w_bar p v))"
proof (intro conjI impI)
  assume "0 < mean_fitness w st"
  then have "w_bar w st \<noteq> 0" by (simp add: mean_fitness_w_bar)
  then show "\<exists>st'. tick w 0 st = Return st' \<and>
         (\<forall>G. freq st' G = fit w G * freq st G / mean_fitness w st)"
    by (rule tick_no_recombination)
next
  assume a: "0 < N \<and> 0 < allele_mean_fitness s (of_int n / of_int N)"
  then have "(1 + s) * (of_int n / of_int N) + 1 * (1 - of_int n / of_int N) \<noteq> 0"
    by (simp add: allele_mean_fitness_def)
  with a show "p_A N s n = Return ((1 + s) * (of_int n / of_int N)
                    / allele_mean_fitness s (of_int n / of_int N))"
    unfolding allele_mean_fitness_def by (intro p_A_as_selection) simp_all
next
  assume "0 < evolve_w_bar p v"
  then show "evolve p v = Return (v * p / evolve_w_bar p v)"
    by (intro evolve_Return) simp
qed

theorem selection_step_formula_witness:
  "(0 < mean_fitness (sweep_fitness (1 / 100)) (mk_freqs (999 / 2000) (1 / 2) (1 / 2000) 0) \<and>
      (\<exists>st'. tick (sweep_fitness (1 / 100)) 0 (mk_freqs (999 / 2000) (1 / 2) (1 / 2000) 0)
               = Return st' \<and>
         (\<forall>G. freq st' G =
            fit (sweep_fitness (1 / 100)) G * freq (mk_freqs (999 / 2000) (1 / 2) (1 / 2000) 0) G
            / mean_fitness (sweep_fitness (1 / 100)) (mk_freqs (999 / 2000) (1 / 2) (1 / 2000) 0)))) \<and>
   ((0::int) < 100 \<and> 0 < allele_mean_fitness (1 / 100) (of_int 1 / of_int 100) \<and>
      p_A 100 (1 / 100) 1 = Return ((1 + 1 / 100) * (of_int 1 / of_int 100)
                    / allele_mean_fitness (1 / 100) (of_int 1 / of_int 100))) \<and>
   (0 < evolve_w_bar (1 / 5) (9 / 10) \<and>
      evolve (1 / 5) (9 / 10) = Return (9 / 10 * (1 / 5) / evolve_w_bar (1 / 5) (9 / 10)))"
proof -
  have 1: "0 < mean_fitness (sweep_fitness (1 / 100)) (mk_freqs (999 / 2000) (1 / 2) (1 / 2000) 0)"
    by (simp add: mean_fitness_def genotypes_def sweep_fitness_def mk_freqs_def)
  have 2: "(0::int) < 100 \<and> 0 < allele_mean_fitness (1 / 100) (of_int 1 / of_int 100)"
    by (simp add: allele_mean_fitness_def)
  have 3: "0 < evolve_w_bar (1 / 5) (9 / 10)"
    by (simp add: evolve_w_bar_def)
  show ?thesis
    using 1 2 3 selection_step_formula [of "sweep_fitness (1 / 100)"
        "mk_freqs (999 / 2000) (1 / 2) (1 / 2000) 0" 100 "1 / 100" 1 "1 / 5" "9 / 10"]
    by blast
qed

section \<open>Selection followed by recombination\<close>

text \<open>
  Claim C2, as the code has it. In a state whose stored allele frequencies are the sums
  of its genotype frequencies, and with a mean fitness that is not zero, one pass of
  the loop body gives every genotype \<open>G = {g1, g2}\<close> the frequency
  \<open>(1 - r) * selection_output G + r * p1 g1 * p2 g2\<close>, where \<open>p1\<close> and \<open>p2\<close> are the
  allele frequencies of the state at the start of the pass, before selection. The
  pass ends by storing the allele frequencies of the new genotype frequencies, which
  are the ones the next pass uses.
\<close>

theorem tick_selection_recombination:
  "consistent st \<Longrightarrow> w_bar w st \<noteq> 0 \<Longrightarrow>
   \<exists>st'. tick w r st = Return st' \<and>
     (\<forall>g1 g2. freq st' (g1, g2) =
        (1 - r) * selection_output w st (g1, g2)
        + r * marginal_freq_locus1 st g1 * marginal_freq_locus2 st g2) \<and>
     p_1A st' = marginal_freq_locus1 st' A \<and> p_1B st' = marginal_freq_locus1 st' B \<and>
     p_2A st' = marginal_freq_locus2 st' A \<and> p_2B st' = marginal_freq_locus2 st' B"
proof -
  assume c: "consistent st" and wb: "w_bar w st \<noteq> 0"
  from tick_blend [OF c wb, of r] obtain st' where
    st': "tick w r st = Return st'" and
    f: "\<forall>g1 g2. freq st' (g1, g2) =
        (1 - r) * selection_output w st (g1, g2)
        + r * marginal_freq_locus1 st g1 * marginal_freq_locus2 st g2" and
    c': "consistent st'" by blast
  have "p_1A st' = marginal_freq_locus1 st' A" "p_1B st' = marginal_freq_locus1 st' B"
    "p_2A st' = marginal_freq_locus2 st' A" "p_2B st' = marginal_freq_locus2 st' B"
    using c' by (simp_all add: consistent_def marginal_freq_locus1_def marginal_freq_locus2_def)
  with st' f show ?thesis by blast
qed

theorem tick_selection_recombination_witness:
  "consistent (mk_freqs (1 / 2) 0 (1 / 2) 0) \<and>
   w_bar (sweep_fitness 1) (mk_freqs (1 / 2) 0 (1 / 2) 0) \<noteq> 0 \<and>
   (\<exists>st'. tick (sweep_fitness 1) (1 / 2) (mk_freqs (1 / 2) 0 (1 / 2) 0) = Return st' \<and>
     (\<forall>g1 g2. freq st' (g1, g2) =
        (1 - 1 / 2) * selection_output (sweep_fitness 1) (mk_freqs (1 / 2) 0 (1 / 2) 0) (g1, g2)
        + 1 / 2 * marginal_freq_locus1 (mk_freqs (1 / 2) 0 (1 / 2) 0) g1
                * marginal_freq_locus2 (mk_freqs (1 / 2) 0 (1 / 2) 0) g2) \<and>
     p_1A st' = marginal_freq_locus1 st' A \<and> p_1B st' = marginal_freq_locus1 st' B \<and>
     p_2A st' = marginal_freq_locus2 st' A \<and> p_2B st' = marginal_freq_locus2 st' B)"
proof -
  have 1: "consistent (mk_freqs (1 / 2) 0 (1 / 2) 0)"
    by (simp add: consistent_def mk_freqs_def)
  have 2: "w_bar (sweep_fitness 1) (mk_freqs (1 / 2) 0 (1 / 2) 0) \<noteq> 0"
    by (simp add: w_bar_def sweep_fitness_def mk_freqs_def)
  show ?thesis
    using 1 2 tick_selection_recombination [OF 1 2, of "1 / 2"] by blast
qed

text \<open>
  The claim as the spec words it takes the allele frequencies after selection. With
  fitness 2 for the B allele at the first locus, \<open>r = 1/2\<close> and the genotypes AA and
  BA at frequency \<open>1/2\<close> each, the loop body gives AA the frequency \<open>5/12\<close>; the
  formula with the allele frequencies after selection gives \<open>1/3\<close>.
\<close>

theorem tick_post_selection_marginals_counterexample:
  "tick (sweep_fitness 1) (1 / 2) (mk_freqs (1 / 2) 0 (1 / 2) 0) =
     Return \<lparr>p_AA = 5 / 12, p_AB = 0, p_BA = 7 / 12, p_BB = 0,
             p_1A = 5 / 12, p_1B = 7 / 12, p_2A = 1, p_2B = 0\<rparr> \<and>
   (1 - 1 / 2) * selection_output (sweep_fitness 1) (mk_freqs (1 / 2) 0 (1 / 2) 0) (A, A)
     + 1 / 2 * post_selection_locus1 (sweep_fitness 1) (mk_freqs (1 / 2) 0 (1 / 2) 0) A
             * post_selection_locus2 (sweep_fitness 1) (mk_freqs (1 / 2) 0 (1 / 2) 0) A
     = 1 / 3"
  by (simp add: tick_def w_bar_def Let_def sweep_fitness_def mk_freqs_def selection_output_def
      post_selection_locus1_def post_selection_locus2_def mean_fitness_def genotypes_def)

section \<open>A mean fitness that is not positive\<close>

text \<open>
  Claim C6, as the code has it. No selection step checks the mean fitness. The
  two-locus loop body never raises: with a mean fitness of zero it yields non-finite
  frequencies, and with any other mean fitness, negative ones too, it divides.
  \<open>evolve\<close> raises exactly when the mean fitness is zero. When frequencies and fitness
  values are non-negative and some genotype has both a positive frequency and a
  positive fitness, the mean fitness is positive and the loop body returns
  frequencies.
\<close>

theorem selection_without_domain_check:
  "tick w r st \<noteq> Raise e \<and>
   (tick w r st = NonFinite \<longleftrightarrow> mean_fitness w st = 0) \<and>
   (evolve p v = Raise ZeroDivisionError \<longleftrightarrow> evolve_w_bar p v = 0) \<and>
   (nonneg st \<and> (\<forall>G. 0 \<le> fit w G) \<and> (\<exists>G. 0 < freq st G \<and> 0 < fit w G) \<longrightarrow>
      0 < mean_fitness w st \<and> (\<exists>st'. tick w r st = Return st'))"
proof (intro conjI impI)
  show "tick w r st \<noteq> Raise e" by (rule tick_not_Raise)
  show "tick w r st = NonFinite \<longleftrightarrow> mean_fitness w st = 0"
    by (simp add: tick_NonFinite mean_fitness_w_bar)
  show "evolve p v = Raise ZeroDivisionError \<longleftrightarrow> evolve_w_bar p v = 0"
    by (rule evolve_Raise)
next
  assume a: "nonneg st \<and> (\<forall>G. 0 \<le> fit w G) \<and> (\<exists>G. 0 < freq st G \<and> 0 < fit w G)"
  then have pos: "0 < w_bar w st" by (intro w_bar_pos) blast+
  then show "0 < mean_fitness w st" by (simp add: mean_fitness_w_bar)
  from pos have "w_bar w st \<noteq> 0" by simp
  from tick_Return [OF this] show "\<exists>st'. tick w r st = Return st'" by blast
qed

theorem selection_without_domain_check_witness:
  "nonneg (mk_freqs (999 / 2000) (1 / 2) (1 / 2000) 0) \<and>
   (\<forall>G. 0 \<le> fit (sweep_fitness (1 / 100)) G) \<and>
   (\<exists>G. 0 < freq (mk_freqs (999 / 2000) (1 / 2) (1 / 2000) 0) G \<and>
        0 < fit (sweep_fitness (1 / 100)) G) \<and>
   0 < mean_fitness (sweep_fitness (1 / 100)) (mk_freqs (999 / 2000) (1 / 2) (1 / 2000) 0) \<and>
   (\<exists>st'. tick (sweep_fitness (1 / 100)) (1 / 200)
            (mk_freqs (999 / 2000) (1 / 2) (1 / 2000) 0) = Return st')"
proof -
  have 1: "nonneg (mk_freqs (999 / 2000) (1 / 2) (1 / 2000) 0)"
    by (simp add: nonneg_def mk_freqs_def)
  have 2: "\<forall>G. 0 \<le> fit (sweep_fitness (1 / 100)) G"
    by (simp add: all_allele sweep_fitness_def)
  have "0 < freq (mk_freqs (999 / 2000) (1 / 2) (1 / 2000) 0) (B, A) \<and>
        0 < fit (sweep_fitness (1 / 100)) (B, A)"
    by (simp add: sweep_fitness_def mk_freqs_def)
  then have 3: "\<exists>G. 0 < freq (mk_freqs (999 / 2000) (1 / 2) (1 / 2000) 0) G \<and>
        0 < fit (sweep_fitness (1 / 100)) G" by blast
  show ?thesis
    using 1 2 3 selection_without_domain_check [of "sweep_fitness (1 / 100)" "1 / 200"
        "mk_freqs (999 / 2000) (1 / 2) (1 / 2000) 0"]
    by blast
qed

text \<open>
  With fitness 0 for the B allele at the first locus and a population of BA and BB
  only, every genotype present has fitness zero: the mean fitness is 0, and the loop
  body raises nothing.
\<close>

theorem zero_mean_fitness_counterexample:
  "mean_fitness (sweep_fitness (- 1)) (mk_freqs 0 0 (1 / 2) (1 / 2)) = 0 \<and>
   tick (sweep_fitness (- 1)) (1 / 200) (mk_freqs 0 0 (1 / 2) (1 / 2)) = NonFinite"
  by (simp add: tick_def w_bar_def Let_def sweep_fitness_def mk_freqs_def
      mean_fitness_def genotypes_def)

section \<open>The probability handed to the binomial draw\<close>

text \<open>
  Claim C9. The claim asks that the argument of the binomial draw be a probability,
  clamped to \<open>[0,1]\<close>, also under floating-point drift. The code hands \<open>p_A\<close> to the
  draw as computed. With \<open>N = 100\<close>, \<open>s = 0.1\<close> (the floating-point number nearest to
  \<open>1/10\<close>) and a population of A alleles alone, \<open>n = 100\<close>, exact arithmetic gives
  \<open>p_A = 1\<close>; the floating-point operations give \<open>110.00000000000001 / 110.0\<close>,
  which is \<open>1 + 2^-52\<close>, and the draw raises \<open>ValueError\<close>.
\<close>

theorem drift_step_float_drift:
  "fl (1 / 10) = 3602879701896397 / 36028797018963968 \<and>
   p_A 100 (fl (1 / 10)) 100 = Return 1 \<and>
   p_A_float 100 (fl (1 / 10)) 100 = Return (1 + 1 / 2 ^ 52) \<and>
   drift_step (const_binomial 100) 100 (fl (1 / 10)) 100 () = Raise ValueError"
  by code_simp

section \<open>The mutation step\<close>

text \<open>
  Claim C4. Let the counts of \<open>allele_n\<close> sum to \<open>2N\<close>, with \<open>N > 0\<close>, and let \<open>u\<close> be
  in \<open>[0,1]\<close>. Whatever the draws return, a number \<open>k \<ge> 0\<close> of mutations from the
  binomial sampler and non-negative counts of sum \<open>2N - k\<close> from the multinomial
  sampler (the ranges of NumPy's samplers), one generation of the loop returns a
  list of counts whose sum is \<open>2N\<close>.
\<close>

theorem mutation_tick_conserves_count:
  "sum_list allele_n = 2 * N \<Longrightarrow> 0 < N \<Longrightarrow> 0 \<le> u \<Longrightarrow> u \<le> 1 \<Longrightarrow>
   rng_binomial g (2 * N) u = (k, g1) \<Longrightarrow> 0 \<le> k \<Longrightarrow>
   pvals allele_n = Return ps \<Longrightarrow>
   rng_multinomial g1 (2 * N - k) ps = (drawn, g2) \<Longrightarrow>
   sum_list drawn = 2 * N - k \<Longrightarrow> \<forall>c\<in>set drawn. 0 \<le> c \<Longrightarrow>
   \<exists>new_allele_n. mutation_tick rng_binomial rng_multinomial N u allele_n g
                     = Return (new_allele_n, g2) \<and>
                  sum_list new_allele_n = 2 * N"
proof -
  assume s: "sum_list allele_n = 2 * N" and N: "0 < N"
    and b: "rng_binomial g (2 * N) u = (k, g1)" and k: "0 \<le> k"
    and ps: "pvals allele_n = Return ps"
    and m: "rng_multinomial g1 (2 * N - k) ps = (drawn, g2)"
    and sm: "sum_list drawn = 2 * N - k" and nn: "\<forall>c\<in>set drawn. 0 \<le> c"
  have nz: "allele_n = [] \<or> sum_list allele_n \<noteq> 0" using s N by simp
  have "ps = map (\<lambda>c. of_int c / of_int (sum_list allele_n)) allele_n"
    using ps unfolding pvals_Return [OF nz] by simp
  with m have "mutation_tick rng_binomial rng_multinomial N u allele_n g =
           Return (filter (\<lambda>c. 0 < c) (drawn @ replicate (nat k) 1), g2)"
    using mutation_tick_Return [where rng_binomial = rng_binomial
        and rng_multinomial = rng_multinomial, OF nz b] by simp
  moreover have "sum_list (filter (\<lambda>c. 0 < c) (drawn @ replicate (nat k) 1)) = 2 * N"
    by (rule sum_after_mutation [OF k sm nn])
  ultimately show ?thesis by blast
qed

theorem mutation_tick_conserves_count_witness:
  "sum_list [4, 6] = 2 * (5::int) \<and> (0::int) < 5 \<and> (0::rat) \<le> 1 / 20 \<and> (1::rat) / 20 \<le> 1 \<and>
   const_binomial 3 () (2 * 5) (1 / 20) = (3, ()) \<and> (0::int) \<le> 3 \<and>
   pvals [4, 6] = Return [2 / 5, 3 / 5] \<and>
   first_multinomial () (2 * 5 - 3) [2 / 5, 3 / 5] = ([7, 0], ()) \<and>
   sum_list [7, 0] = 2 * 5 - (3::int) \<and> list_all (\<lambda>c. (0::int) \<le> c) [7, 0] \<and>
   (\<exists>new_allele_n. mutation_tick (const_binomial 3) first_multinomial 5 (1 / 20) [4, 6] ()
                     = Return (new_allele_n, ()) \<and>
                  sum_list new_allele_n = 2 * 5)"
proof -
  have 1: "const_binomial 3 () (2 * 5) (1 / 20) = (3, ())"
    by (simp add: const_binomial_def)
  have 2: "pvals [4, 6] = Return [2 / 5, 3 / 5]"
    by (simp add: pvals_def)
  have 3: "first_multinomial () (2 * 5 - 3) [2 / 5, 3 / 5] = ([7, 0], ())"
    by (simp add: first_multinomial_def)
  have 4: "\<forall>c\<in>set [7, 0]. (0::int) \<le> c" by simp
  have "\<exists>new_allele_n. mutation_tick (const_binomial 3) first_multinomial 5 (1 / 20) [4, 6] ()
                     = Return (new_allele_n, ()) \<and>
                  sum_list new_allele_n = 2 * 5"
    by (rule mutation_tick_conserves_count [where rng_binomial = "const_binomial 3"
          and rng_multinomial = first_multinomial and u = "1 / 20" and g = "()" and N = 5
          and allele_n = "[4, 6]", OF _ _ _ _ 1 _ 2 3 _ 4]) simp_all
  with 1 2 3 show ?thesis by simp
qed

text \<open>
  Claim C5. One generation of the loop is the mutation step of the spec, in its
  order: the binomial draw \<open>k\<close> with parameters \<open>(2N, u)\<close> from the generator's
  state at entry; then, from the state the first draw leaves, the multinomial draw of
  \<open>2N - k\<close> individuals weighted by the current allele frequencies; then \<open>k\<close> entries
  of count 1 at the end of the list; then the removal of the entries of count 0, after
  which no entry of the stored list is 0. The weights exist when the counts do not
  sum to zero, and the draws are counts, so none is negative.
\<close>

theorem mutation_tick_steps:
  "allele_n = [] \<or> sum_list allele_n \<noteq> 0 \<Longrightarrow>
   rng_binomial g (2 * N) u = (k, g1) \<Longrightarrow>
   rng_multinomial g1 (2 * N - k)
     (map (\<lambda>c. of_int c / of_int (sum_list allele_n)) allele_n) = (drawn, g2) \<Longrightarrow>
   \<forall>c\<in>set drawn. 0 \<le> c \<Longrightarrow>
   mutation_tick rng_binomial rng_multinomial N u allele_n g
     = Return (mutation_step_spec rng_binomial rng_multinomial N u allele_n g) \<and>
   mutation_step_spec rng_binomial rng_multinomial N u allele_n g
     = (filter (\<lambda>c. c \<noteq> 0) (drawn @ replicate (nat k) 1), g2) \<and>
   0 \<notin> set (fst (mutation_step_spec rng_binomial rng_multinomial N u allele_n g))"
proof -
  assume nz: "allele_n = [] \<or> sum_list allele_n \<noteq> 0"
    and b: "rng_binomial g (2 * N) u = (k, g1)"
    and m: "rng_multinomial g1 (2 * N - k)
     (map (\<lambda>c. of_int c / of_int (sum_list allele_n)) allele_n) = (drawn, g2)"
    and nn: "\<forall>c\<in>set drawn. 0 \<le> c"
  have all: "\<forall>c\<in>set (drawn @ replicate (nat k) 1). (0::int) \<le> c" using nn by auto
  have code: "mutation_tick rng_binomial rng_multinomial N u allele_n g =
           Return (filter (\<lambda>c. 0 < c) (drawn @ replicate (nat k) 1), g2)"
    by (rule mutation_tick_Return [where rng_binomial = rng_binomial
          and rng_multinomial = rng_multinomial, OF nz b m])
  have spec: "mutation_step_spec rng_binomial rng_multinomial N u allele_n g
     = (filter (\<lambda>c. c \<noteq> 0) (drawn @ replicate (nat k) 1), g2)"
    by (rule mutation_step_spec_eq [where rng_binomial = rng_binomial
          and rng_multinomial = rng_multinomial, OF b m])
  have "mutation_tick rng_binomial rng_multinomial N u allele_n g
     = Return (mutation_step_spec rng_binomial rng_multinomial N u allele_n g)"
    unfolding code spec by (simp only: filter_pos_nonzero [OF all])
  moreover have "0 \<notin> set (fst (mutation_step_spec rng_binomial rng_multinomial N u allele_n g))"
    unfolding spec by simp
  ultimately show ?thesis using spec by blast
qed

theorem mutation_tick_steps_witness:
  "sum_list [4, 6] \<noteq> (0::int) \<and>
   const_binomial 3 () (2 * 5) (1 / 20) = (3, ()) \<and>
   first_multinomial () (2 * 5 - 3)
     (map (\<lambda>c. of_int c / of_int (sum_list [4, 6])) [4, 6]) = ([7, 0], ()) \<and>
   list_all (\<lambda>c. (0::int) \<le> c) [7, 0] \<and>
   mutation_tick (const_binomial 3) first_multinomial 5 (1 / 20) [4, 6] ()
     = Return (mutation_step_spec (const_binomial 3) first_multinomial 5 (1 / 20) [4, 6] ()) \<and>
   mutation_step_spec (const_binomial 3) first_multinomial 5 (1 / 20) [4, 6] ()
     = (filter (\<lambda>c. c \<noteq> 0) ([7, 0] @ replicate (nat 3) 1), ()) \<and>
   0 \<notin> set (fst (mutation_step_spec (const_binomial 3) first_multinomial 5 (1 / 20) [4, 6] ())) \<and>
   mutation_tick (const_binomial 3) first_multinomial 5 (1 / 20) [4, 6] ()
     = Return ([7, 1, 1, 1], ())"
proof -
  have 0: "[4, 6] = [] \<or> sum_list [4, 6] \<noteq> (0::int)" by simp
  have 1: "const_binomial 3 () (2 * 5) (1 / 20) = (3, ())"
    by (simp add: const_binomial_def)
  have 2: "first_multinomial () (2 * 5 - 3)
     (map (\<lambda>c. of_int c / of_int (sum_list [4, 6])) [4, 6]) = ([7, 0], ())"
    by (simp add: first_multinomial_def)
  have 3: "\<forall>c\<in>set [7, 0]. (0::int) \<le> c" by simp
  note t = mutation_tick_steps [where rng_binomial = "const_binomial 3"
      and rng_multinomial = first_multinomial and u = "1 / 20" and g = "()" and N = 5
      and allele_n = "[4, 6]", OF 0 1 2 3]
  have "filter (\<lambda>c. c \<noteq> 0) ([7, 0] @ replicate (nat 3) 1) = [7, 1, 1, 1::int]"
    by (simp add: numeral_3_eq_3)
  with t have "mutation_tick (const_binomial 3) first_multinomial 5 (1 / 20) [4, 6] ()
     = Return ([7, 1, 1, 1], ())" by simp
  with 1 2 t show ?thesis by simp
qed

section \<open>Halting of the sweep loop\<close>




end
